theory Spec2Isabelle
  imports Complex_Main "HOL-Library.Word"
begin

section \<open>Exceptions\<close>

text \<open>
  The exceptions of \<^verbatim>\<open>merge_textures.py\<close> that the modelled functions raise or catch.
  A function that may raise returns \<open>error + 'a\<close>, with \<open>Inl\<close> for the exception.
\<close>

datatype error = RuntimeError | ValueError | ZeroDivisionError | FileNotFoundError

section \<open>Images\<close>

text \<open>
  An RGB image as the program uses it through PIL: a width, a height, the pixel at each
  coordinate, and whether \<^verbatim>\<open>close()\<close> has destroyed the image core. Sizes and coordinates
  are Python integers. The Lanczos filter itself is not modelled: every function that
  resamples takes it as the parameter \<open>lanczos\<close>, which gives the pixels of the resampled
  image.
\<close>

type_synonym pixel = "8 word \<times> 8 word \<times> 8 word"

type_synonym box = "int \<times> int \<times> int \<times> int"

record image =
  width :: int
  height :: int
  pix :: "int \<Rightarrow> int \<Rightarrow> pixel"
  is_closed :: bool

type_synonym resampler = "image \<Rightarrow> int \<times> int \<Rightarrow> int \<Rightarrow> int \<Rightarrow> pixel"

definition black :: pixel where
  "black = (0, 0, 0)"

definition img_size :: "image \<Rightarrow> int \<times> int" where
  "img_size im = (width im, height im)"

text \<open>\<^verbatim>\<open>Image.new('RGB', size)\<close>: a zero-filled buffer; a negative size is a ValueError.\<close>

definition new_image :: "int \<times> int \<Rightarrow> error + image" where
  "new_image sz =
     (if fst sz < 0 \<or> snd sz < 0 then Inl ValueError
      else Inr \<lparr>width = fst sz, height = snd sz, pix = (\<lambda>x y. black), is_closed = False\<rparr>)"

text \<open>\<^verbatim>\<open>img.crop(box)\<close>: the region of the box, black outside the source image.\<close>

definition crop :: "image \<Rightarrow> box \<Rightarrow> error + image" where
  "crop im b =
     (case b of (x0, y0, x1, y1) \<Rightarrow>
        if is_closed im then Inl ValueError
        else Inr \<lparr>width = x1 - x0, height = y1 - y0,
                  pix = (\<lambda>x y. if 0 \<le> x0 + x \<and> x0 + x < width im \<and> 0 \<le> y0 + y \<and> y0 + y < height im
                               then pix im (x0 + x) (y0 + y) else black),
                  is_closed = False\<rparr>)"

text \<open>
  \<^verbatim>\<open>img.resize(size, Image.LANCZOS)\<close>: an operation on a closed image is a ValueError; a
  request for the image's own size returns a copy; a requested width or height below 1
  is a ValueError ("height and width must be > 0"); otherwise the image is resampled.
\<close>

definition resize :: "resampler \<Rightarrow> image \<Rightarrow> int \<times> int \<Rightarrow> error + image" where
  "resize lanczos im sz =
     (if is_closed im then Inl ValueError
      else if img_size im = sz then Inr im
      else if fst sz < 1 \<or> snd sz < 1 then Inl ValueError
      else Inr \<lparr>width = fst sz, height = snd sz, pix = lanczos im sz, is_closed = False\<rparr>)"

text \<open>
  \<^verbatim>\<open>dst.paste(src, box)\<close> with a 4-tuple box: the size of \<open>src\<close> must be the size of the
  box ("images do not match" is a ValueError); the pixels of the box are replaced.
\<close>

definition in_box :: "box \<Rightarrow> int \<Rightarrow> int \<Rightarrow> bool" where
  "in_box b x y = (case b of (x0, y0, x1, y1) \<Rightarrow> x0 \<le> x \<and> x < x1 \<and> y0 \<le> y \<and> y < y1)"

definition paste :: "image \<Rightarrow> image \<Rightarrow> box \<Rightarrow> error + image" where
  "paste dst src b =
     (case b of (x0, y0, x1, y1) \<Rightarrow>
        if is_closed src \<or> is_closed dst then Inl ValueError
        else if img_size src \<noteq> (x1 - x0, y1 - y0) then Inl ValueError
        else Inr (dst\<lparr>pix := (\<lambda>x y. if in_box b x y then pix src (x - x0) (y - y0) else pix dst x y)\<rparr>))"

text \<open>\<^verbatim>\<open>img.close()\<close>: the image data is unusable afterwards; the size stays readable.\<close>

definition close_image :: "image \<Rightarrow> image" where
  "close_image im = im\<lparr>is_closed := True\<rparr>"

text \<open>Two images are the same picture: same size, same pixel at every coordinate inside.\<close>

definition same_pixels :: "image \<Rightarrow> image \<Rightarrow> bool" where
  "same_pixels a b \<longleftrightarrow>
     width a = width b \<and> height a = height b \<and>
     (\<forall>x \<in> {0..<width a}. \<forall>y \<in> {0..<height a}. pix a x y = pix b x y)"

section \<open>HardwareManager\<close>

text \<open>
  The readings of \<^verbatim>\<open>psutil\<close> during one call of \<^verbatim>\<open>safe_resize\<close>, in the order they are
  taken: the available memory and the free disk space read by \<^verbatim>\<open>check_resources\<close>, the
  available memory read again for the chunk size, and the used-memory percentage read
  after the \<open>k\<close>-th tile.
\<close>

record probe =
  avail_at_check :: int
  disk_free :: int
  avail_at_plan :: int
  mem_percent :: "nat \<Rightarrow> real"

definition check_resources :: "int \<Rightarrow> int \<Rightarrow> error + unit" where
  "check_resources available free =
     (let memory = (available > 1 * 1024 * 1024 * 1024);
          disk = (free > 2 * 1024 * 1024 * 1024)
      in if \<not> (memory \<and> disk) then Inl RuntimeError else Inr ())"

section \<open>ChunkProcessor.safe_resize\<close>

text \<open>
  A Python float is the real number it denotes. The double-precision operations of the
  source round their results, and the rounding is not modelled: the three operations the
  source uses are the parameter \<open>fl\<close> of every function that computes with floats.
  \<open>fdiv a b\<close> is \<^verbatim>\<open>a / b\<close> on two integers, \<open>fmul n x\<close> is \<^verbatim>\<open>n * x\<close> on an integer and
  a float, \<open>fsqrt x\<close> is \<^verbatim>\<open>math.sqrt(x)\<close>.
\<close>

record float_ops =
  fdiv :: "int \<Rightarrow> int \<Rightarrow> real"
  fmul :: "int \<Rightarrow> real \<Rightarrow> real"
  fsqrt :: "real \<Rightarrow> real"

text \<open>\<^verbatim>\<open>int(x)\<close> on a float truncates towards zero; the conversion is exact.\<close>

definition py_int :: "real \<Rightarrow> int" where
  "py_int x = (if 0 \<le> x then \<lfloor>x\<rfloor> else \<lceil>x\<rceil>)"

text \<open>
  \<^verbatim>\<open>range(start, stop, step)\<close>. The source calls it with the chunk size as step, which is
  at least 256; for a step that is not positive the model gives the empty list.
\<close>

function py_range :: "int \<Rightarrow> int \<Rightarrow> int \<Rightarrow> int list" where
  "py_range start stop step =
     (if step \<le> 0 \<or> stop \<le> start then [] else start # py_range (start + step) stop step)"
  by pat_completeness auto
termination
  by (relation "measure (\<lambda>(start, stop, step). nat (stop - start))") auto

declare py_range.simps [simp del]

definition chunk_size :: "float_ops \<Rightarrow> int \<Rightarrow> int \<Rightarrow> int \<Rightarrow> int" where
  "chunk_size fl available w h =
     (let base_size = w * h * 3;
          mem_factor = fdiv fl available (base_size * 2)
      in max 256 (min 2048 (py_int (fsqrt fl mem_factor) * 128)))"

definition tile_plan :: "int \<Rightarrow> int \<Rightarrow> int \<Rightarrow> box list" where
  "tile_plan chunk w h =
     concat (map (\<lambda>y. map (\<lambda>x. (x, y, min (x + chunk) w, min (y + chunk) h))
                          (py_range 0 w chunk))
                 (py_range 0 h chunk))"

definition scaled_size :: "float_ops \<Rightarrow> image \<Rightarrow> real \<Rightarrow> real \<Rightarrow> int \<times> int" where
  "scaled_size fl cropped scale_w scale_h =
     (max 1 (py_int (fmul fl (width cropped) scale_w)),
      max 1 (py_int (fmul fl (height cropped) scale_h)))"

text \<open>\<^verbatim>\<open>processed[-3:]\<close>: the last three elements, or all of them when there are fewer.\<close>

definition last3 :: "'a list \<Rightarrow> 'a list" where
  "last3 xs = drop (length xs - 3) xs"

text \<open>
  One pass of the loop body over \<open>tile\<close>, the \<open>k\<close>-th tile of the plan. Under memory
  pressure the source rebinds \<open>processed\<close> to its last three elements, closes the crop and
  the tile just scaled, and then appends that same (closed) tile object.
\<close>

definition process_tile ::
  "float_ops \<Rightarrow> resampler \<Rightarrow> probe \<Rightarrow> image \<Rightarrow> real \<Rightarrow> real \<Rightarrow> nat \<Rightarrow> box \<Rightarrow> image list \<Rightarrow> error + image list" where
  "process_tile fl lanczos env img scale_w scale_h k tile processed =
     (case crop img tile of
        Inl e \<Rightarrow> Inl e
      | Inr cropped \<Rightarrow>
          (case resize lanczos cropped (scaled_size fl cropped scale_w scale_h) of
             Inl e \<Rightarrow> Inl e
           | Inr scaled \<Rightarrow>
               if mem_percent env k > 85
               then Inr (last3 processed @ [close_image scaled])
               else Inr (processed @ [scaled])))"

fun process_tiles ::
  "float_ops \<Rightarrow> resampler \<Rightarrow> probe \<Rightarrow> image \<Rightarrow> real \<Rightarrow> real \<Rightarrow> nat \<Rightarrow> box list \<Rightarrow> image list \<Rightarrow> error + image list" where
  "process_tiles fl lanczos env img scale_w scale_h k [] processed = Inr processed"
| "process_tiles fl lanczos env img scale_w scale_h k (tile # tiles) processed =
     (case process_tile fl lanczos env img scale_w scale_h k tile processed of
        Inl e \<Rightarrow> Inl e
      | Inr processed' \<Rightarrow> process_tiles fl lanczos env img scale_w scale_h (Suc k) tiles processed')"

section \<open>ChunkProcessor.merge\<close>

text \<open>
  The loop state of \<^verbatim>\<open>merge\<close>. The field \<open>pasted\<close> is not in the source: it records the
  boxes that were pasted, so that the unfilled region of the result can be named.
\<close>

record merge_state =
  merged :: image
  x_pos :: int
  y_pos :: int
  current_row_height :: int
  pasted :: "box list"

datatype flow = Next_tile | Break_loop

definition wrap_row :: "image \<Rightarrow> merge_state \<Rightarrow> merge_state" where
  "wrap_row tile st =
     (if x_pos st + width tile > width (merged st)
      then st\<lparr>x_pos := 0, y_pos := y_pos st + current_row_height st, current_row_height := 0\<rparr>
      else st)"

definition paste_box :: "image \<Rightarrow> merge_state \<Rightarrow> box" where
  "paste_box tile st =
     (x_pos st, y_pos st,
      min (x_pos st + width tile) (width (merged st)),
      min (y_pos st + height tile) (height (merged st)))"

definition resize_and_paste :: "resampler \<Rightarrow> image \<Rightarrow> image \<Rightarrow> box \<Rightarrow> error + image" where
  "resize_and_paste lanczos dst tile b =
     (case b of (x0, y0, x1, y1) \<Rightarrow>
        (case resize lanczos tile (x1 - x0, y1 - y0) of
           Inl e \<Rightarrow> Inl e
         | Inr fitted \<Rightarrow> paste dst fitted b))"

definition merge_step :: "resampler \<Rightarrow> image \<Rightarrow> merge_state \<Rightarrow> error + (merge_state \<times> flow)" where
  "merge_step lanczos tile st0 =
     (let st = wrap_row tile st0 in
      if y_pos st \<ge> height (merged st) then Inr (st, Break_loop)
      else
        (case resize_and_paste lanczos (merged st) tile (paste_box tile st) of
           Inl e \<Rightarrow> (if e = ValueError then Inr (st, Next_tile) else Inl e)
         | Inr m \<Rightarrow>
             (let st' = st\<lparr>merged := m,
                           x_pos := x_pos st + width tile,
                           current_row_height := max (current_row_height st) (height tile),
                           pasted := pasted st @ [paste_box tile st]\<rparr>
              in if y_pos st' + current_row_height st' > height (merged st')
                 then Inr (st', Break_loop) else Inr (st', Next_tile))))"

fun merge_loop :: "resampler \<Rightarrow> image list \<Rightarrow> merge_state \<Rightarrow> error + merge_state" where
  "merge_loop lanczos [] st = Inr st"
| "merge_loop lanczos (tile # tiles) st =
     (case merge_step lanczos tile st of
        Inl e \<Rightarrow> Inl e
      | Inr (st', Break_loop) \<Rightarrow> Inr st'
      | Inr (st', Next_tile) \<Rightarrow> merge_loop lanczos tiles st')"

definition merge_run :: "resampler \<Rightarrow> image list \<Rightarrow> int \<times> int \<Rightarrow> error + merge_state" where
  "merge_run lanczos tiles target_sz =
     (case new_image target_sz of
        Inl e \<Rightarrow> Inl e
      | Inr m \<Rightarrow> merge_loop lanczos tiles
                  \<lparr>merged = m, x_pos = 0, y_pos = 0, current_row_height = 0, pasted = []\<rparr>)"

definition merge :: "resampler \<Rightarrow> image list \<Rightarrow> int \<times> int \<Rightarrow> error + image" where
  "merge lanczos tiles target_sz =
     (case merge_run lanczos tiles target_sz of Inl e \<Rightarrow> Inl e | Inr st \<Rightarrow> Inr (merged st))"

section \<open>The tiling pipeline and its fallback\<close>

text \<open>
  The body of the \<^verbatim>\<open>try\<close> block of \<^verbatim>\<open>safe_resize\<close>. The division by \<open>base_size * 2\<close>
  raises ZeroDivisionError for an image without pixels, and \<^verbatim>\<open>math.sqrt\<close> raises
  ValueError for a negative argument.
\<close>

definition tile_pipeline :: "float_ops \<Rightarrow> resampler \<Rightarrow> probe \<Rightarrow> image \<Rightarrow> int \<times> int \<Rightarrow> error + image" where
  "tile_pipeline fl lanczos env img target_sz =
     (case check_resources (avail_at_check env) (disk_free env) of
        Inl e \<Rightarrow> Inl e
      | Inr _ \<Rightarrow>
          (let base_size = width img * height img * 3 in
           if base_size * 2 = 0 then Inl ZeroDivisionError
           else if fdiv fl (avail_at_plan env) (base_size * 2) < 0 then Inl ValueError
           else
             (let chunk = chunk_size fl (avail_at_plan env) (width img) (height img);
                  tiles = tile_plan chunk (width img) (height img);
                  scale_w = fdiv fl (fst target_sz) (width img);
                  scale_h = fdiv fl (snd target_sz) (height img)
              in case process_tiles fl lanczos env img scale_w scale_h 0 tiles [] of
                   Inl e \<Rightarrow> Inl e
                 | Inr processed \<Rightarrow> merge lanczos processed target_sz)))"

definition safe_resize :: "float_ops \<Rightarrow> resampler \<Rightarrow> probe \<Rightarrow> image \<Rightarrow> int \<times> int \<Rightarrow> error + image" where
  "safe_resize fl lanczos env img target_sz =
     (case tile_pipeline fl lanczos env img target_sz of
        Inl e \<Rightarrow> resize lanczos img target_sz
      | Inr m \<Rightarrow> Inr m)"

section \<open>MipmapProcessor\<close>

text \<open>
  A PNG file on disk: its size and pixels. \<^verbatim>\<open>Image.open(path).convert('RGB')\<close> gives a
  fresh open image; \<^verbatim>\<open>save\<close> writes the picture of an open image and raises ValueError
  for an empty one.
\<close>

record png_file =
  png_width :: int
  png_height :: int
  png_pix :: "int \<Rightarrow> int \<Rightarrow> pixel"

definition open_rgb :: "png_file \<Rightarrow> image" where
  "open_rgb f = \<lparr>width = png_width f, height = png_height f, pix = png_pix f, is_closed = False\<rparr>"

definition save_png :: "image \<Rightarrow> error + png_file" where
  "save_png im =
     (if is_closed im \<or> width im < 1 \<or> height im < 1 then Inl ValueError
      else Inr \<lparr>png_width = width im, png_height = height im, png_pix = pix im\<rparr>)"

definition png_size :: "png_file \<Rightarrow> int \<times> int" where
  "png_size f = (png_width f, png_height f)"

definition halve :: "int \<times> int \<Rightarrow> int \<times> int" where
  "halve sz = (fst sz div 2, snd sz div 2)"

text \<open>\<^verbatim>\<open>process_image\<close>; the size warning it may print does not change what it returns.\<close>

definition process_image :: "float_ops \<Rightarrow> resampler \<Rightarrow> probe \<Rightarrow> png_file \<Rightarrow> int \<times> int \<Rightarrow> error + png_file" where
  "process_image fl lanczos env path target_sz =
     (let img = open_rgb path in
      if img_size img = target_sz then Inr path
      else
        (case safe_resize fl lanczos env img target_sz of
           Inl e \<Rightarrow> Inl e
         | Inr resized \<Rightarrow> save_png resized))"

text \<open>
  The loop of \<^verbatim>\<open>process\<close> over \<^verbatim>\<open>files[1:]\<close>. Each level is returned with the
  \<open>current_size\<close> that was its target. \<open>env idx\<close> is what \<^verbatim>\<open>psutil\<close> reads during level
  \<open>idx\<close>.
\<close>

fun process_levels ::
  "float_ops \<Rightarrow> resampler \<Rightarrow> (nat \<Rightarrow> probe) \<Rightarrow> int \<times> int \<Rightarrow> nat \<Rightarrow> png_file list
     \<Rightarrow> error + ((int \<times> int) \<times> png_file) list" where
  "process_levels fl lanczos env current_size idx [] = Inr []"
| "process_levels fl lanczos env current_size idx (f # files) =
     (let current_size' = (fst current_size div 2, snd current_size div 2) in
      case process_image fl lanczos (env idx) f current_size' of
        Inl e \<Rightarrow> Inl e
      | Inr output \<Rightarrow>
          (case process_levels fl lanczos env current_size' (Suc idx) files of
             Inl e \<Rightarrow> Inl e
           | Inr outputs \<Rightarrow> Inr ((current_size', output) # outputs)))"

text \<open>
  \<^verbatim>\<open>process\<close> up to the call of \<^verbatim>\<open>generate_dds\<close>: \<^verbatim>\<open>get_mip_files\<close> needs two files;
  level 0 is the first file as it is, with its own size.
\<close>

definition process ::
  "float_ops \<Rightarrow> resampler \<Rightarrow> (nat \<Rightarrow> probe) \<Rightarrow> png_file list \<Rightarrow> error + ((int \<times> int) \<times> png_file) list" where
  "process fl lanczos env files =
     (if length files < 2 then Inl FileNotFoundError
      else
        (let base_size = png_size (hd files) in
         case process_levels fl lanczos env base_size 1 (tl files) of
           Inl e \<Rightarrow> Inl e
         | Inr outputs \<Rightarrow> Inr ((base_size, hd files) # outputs)))"

section \<open>Notions used to state the properties\<close>

text \<open>The pixels a box covers.\<close>

definition rect :: "box \<Rightarrow> (int \<times> int) set" where
  "rect b = {(x, y). in_box b x y}"

text \<open>Row-major order of tiles: an earlier row first, and within a row from left to right.\<close>

definition row_major_before :: "box \<Rightarrow> box \<Rightarrow> bool" where
  "row_major_before a b =
     (case a of (ax0, ay0, ax1, ay1) \<Rightarrow> case b of (bx0, by0, bx1, by1) \<Rightarrow>
        ay0 < by0 \<or> (ay0 = by0 \<and> ax0 < bx0))"

definition tile_before :: "box \<Rightarrow> box \<Rightarrow> bool" where
  "tile_before a b \<longleftrightarrow> row_major_before a b \<and> rect a \<inter> rect b = {}"

text \<open>Every pixel of the destination outside all pasted boxes has the value of a new buffer.\<close>

definition unfilled_black :: "merge_state \<Rightarrow> bool" where
  "unfilled_black st \<longleftrightarrow>
     (\<forall>x y. (\<forall>b \<in> set (pasted st). \<not> in_box b x y) \<longrightarrow> pix (merged st) x y = black)"

text \<open>The values \<open>current_size\<close> takes in the loop of \<^verbatim>\<open>process\<close> over \<open>n\<close> further levels.\<close>

fun mip_targets :: "int \<times> int \<Rightarrow> nat \<Rightarrow> (int \<times> int) list" where
  "mip_targets current_size 0 = []"
| "mip_targets current_size (Suc n) = halve current_size # mip_targets (halve current_size) n"

text \<open>
  The size of a resampled tile in the words of the specification: the same products,
  rounded to the nearest integer where the source truncates.
\<close>

definition spec_scaled_size :: "float_ops \<Rightarrow> image \<Rightarrow> real \<Rightarrow> real \<Rightarrow> int \<times> int" where
  "spec_scaled_size fl cropped scale_w scale_h =
     (max 1 (round (fmul fl (width cropped) scale_w)),
      max 1 (round (fmul fl (height cropped) scale_h)))"

section \<open>Sample inputs\<close>

text \<open>A nearest-neighbour sampler stands in for the Lanczos filter in the concrete runs.\<close>

definition nearest :: resampler where
  "nearest im sz x y = pix im (x * width im div fst sz) (y * height im div snd sz)"

definition white :: pixel where
  "white = (255, 255, 255)"

definition solid :: "int \<Rightarrow> int \<Rightarrow> pixel \<Rightarrow> image" where
  "solid w h p = \<lparr>width = w, height = h, pix = (\<lambda>x y. p), is_closed = False\<rparr>"

definition solid_png :: "int \<Rightarrow> int \<Rightarrow> pixel \<Rightarrow> png_file" where
  "solid_png w h p = \<lparr>png_width = w, png_height = h, png_pix = (\<lambda>x y. p)\<rparr>"

text \<open>
  Float operations without rounding. They are the double-precision operations wherever
  the exact result is a double; the concrete runs that are evaluated below compute only
  such quotients, products and roots (\<open>4 / 8\<close>, \<open>9 / 12288\<close>, \<open>2048 * (3 / 4096)\<close>, the root
  of \<open>2 ^ 24\<close>). What is stated about the chain with a 100x100 level is its list of
  targets, which is the same for every choice of the float operations.
\<close>

definition exact_ops :: float_ops where
  "exact_ops = \<lparr>fdiv = (\<lambda>a b. real_of_int a / real_of_int b),
                 fmul = (\<lambda>n x. real_of_int n * x),
                 fsqrt = sqrt\<rparr>"

text \<open>6 GiB of memory available, 100 GiB of disk free, 40 percent of the memory in use.\<close>

definition roomy :: probe where
  "roomy = \<lparr>avail_at_check = 6442450944, disk_free = 107374182400,
            avail_at_plan = 6442450944, mem_percent = (\<lambda>k. 40)\<rparr>"

text \<open>As \<open>roomy\<close>, with 1 GiB of disk free.\<close>

definition disk_full :: probe where
  "disk_full = roomy\<lparr>disk_free := 1073741824\<rparr>"

text \<open>As \<open>roomy\<close>, with 512 MiB of memory available.\<close>

definition starved :: probe where
  "starved = roomy\<lparr>avail_at_check := 536870912, avail_at_plan := 536870912\<rparr>"

text \<open>As \<open>roomy\<close>, with 90 percent of the memory in use at every tile.\<close>

definition pressured :: probe where
  "pressured = roomy\<lparr>mem_percent := (\<lambda>k. 90)\<rparr>"

definition calm :: "nat \<Rightarrow> probe" where
  "calm idx = roomy"

definition scarce :: "nat \<Rightarrow> probe" where
  "scarce idx = starved"

text \<open>A chain whose level 1 does not have half the size of level 0.\<close>

definition mismatched_files :: "png_file list" where
  "mismatched_files = [solid_png 256 256 white, solid_png 100 100 white, solid_png 64 64 white]"

text \<open>A chain that reaches the target size 0x0 at level 2.\<close>

definition tiny_files :: "png_file list" where
  "tiny_files = [solid_png 2 2 white, solid_png 1 1 white, solid_png 1 1 white]"

definition halved_files :: "png_file list" where
  "halved_files =
     [solid_png 256 256 white, solid_png 128 128 white, solid_png 64 64 white, solid_png 32 32 white]"

section \<open>PIL operations: what they raise and what they keep\<close>

lemma resize_raises: "resize lanczos im sz = Inl e \<Longrightarrow> e = ValueError"
  by (simp add: resize_def split: if_splits)

lemma resize_size: "resize lanczos im sz = Inr r \<Longrightarrow> img_size r = sz \<and> \<not> is_closed r"
  by (auto simp: resize_def img_size_def split: if_splits)

lemma resize_positive:
  "\<not> is_closed im \<Longrightarrow> 0 < fst sz \<Longrightarrow> 0 < snd sz \<Longrightarrow> \<exists>r. resize lanczos im sz = Inr r"
  by (simp add: resize_def)

lemma paste_raises: "paste dst src b = Inl e \<Longrightarrow> e = ValueError"
  by (cases b) (simp add: paste_def split: if_splits)

lemma paste_keeps:
  "paste dst src b = Inr m \<Longrightarrow>
     width m = width dst \<and> height m = height dst \<and> is_closed m = is_closed dst \<and>
     (\<forall>x y. \<not> in_box b x y \<longrightarrow> pix m x y = pix dst x y)"
  by (cases b) (auto simp: paste_def split: if_splits)

lemma resize_and_paste_raises: "resize_and_paste lanczos dst tile b = Inl e \<Longrightarrow> e = ValueError"
  by (cases b) (auto simp: resize_and_paste_def split: sum.splits dest: resize_raises paste_raises)

lemma resize_and_paste_keeps:
  "resize_and_paste lanczos dst tile b = Inr m \<Longrightarrow>
     width m = width dst \<and> height m = height dst \<and> is_closed m = is_closed dst \<and>
     (\<forall>x y. \<not> in_box b x y \<longrightarrow> pix m x y = pix dst x y)"
  by (cases b) (auto simp: resize_and_paste_def split: sum.splits dest: paste_keeps)

section \<open>merge: the destination keeps its size\<close>

lemma wrap_row_keeps [simp]:
  "merged (wrap_row tile st) = merged st" "pasted (wrap_row tile st) = pasted st"
  by (simp_all add: wrap_row_def)

lemma merge_step_total: "\<exists>st' f. merge_step lanczos tile st = Inr (st', f)"
  by (auto simp: merge_step_def Let_def split: sum.splits dest: resize_and_paste_raises)

lemma merge_step_keeps:
  assumes "merge_step lanczos tile st = Inr (st', f)"
  shows "width (merged st') = width (merged st)"
    and "height (merged st') = height (merged st)"
    and "is_closed (merged st') = is_closed (merged st)"
    and "unfilled_black st \<Longrightarrow> unfilled_black st'"
  using assms
  by (auto simp: merge_step_def Let_def unfilled_black_def split: sum.splits if_splits
      dest!: resize_and_paste_keeps)

lemma merge_loop_keeps:
  "\<exists>st'. merge_loop lanczos tiles st = Inr st' \<and>
         width (merged st') = width (merged st) \<and> height (merged st') = height (merged st) \<and>
         is_closed (merged st') = is_closed (merged st) \<and>
         (unfilled_black st \<longrightarrow> unfilled_black st')"
proof (induction tiles arbitrary: st)
  case Nil
  then show ?case by simp
next
  case (Cons tile tiles)
  obtain st1 f where s: "merge_step lanczos tile st = Inr (st1, f)"
    using merge_step_total by blast
  note k = merge_step_keeps [OF s]
  show ?case
  proof (cases f)
    case Next_tile
    with s Cons.IH [of st1] k show ?thesis by auto
  next
    case Break_loop
    with s k show ?thesis by auto
  qed
qed

lemma merge_run_result:
  assumes "0 \<le> fst target_sz" "0 \<le> snd target_sz"
  shows "\<exists>st. merge_run lanczos tiles target_sz = Inr st \<and>
              merge lanczos tiles target_sz = Inr (merged st) \<and>
              img_size (merged st) = target_sz \<and> \<not> is_closed (merged st) \<and> unfilled_black st"
proof -
  let ?m = "\<lparr>width = fst target_sz, height = snd target_sz, pix = (\<lambda>x y. black), is_closed = False\<rparr>"
  let ?st0 = "\<lparr>merged = ?m, x_pos = 0, y_pos = 0, current_row_height = 0, pasted = []\<rparr>"
  have n: "new_image target_sz = Inr ?m" using assms by (simp add: new_image_def)
  have u: "unfilled_black ?st0" by (simp add: unfilled_black_def)
  obtain st where "merge_loop lanczos tiles ?st0 = Inr st"
    "width (merged st) = fst target_sz" "height (merged st) = snd target_sz"
    "\<not> is_closed (merged st)" "unfilled_black st"
    using merge_loop_keeps [of lanczos tiles ?st0] u by auto
  then show ?thesis using n by (auto simp: merge_run_def merge_def img_size_def)
qed

lemma merge_size:
  assumes "merge lanczos tiles target_sz = Inr m"
  shows "img_size m = target_sz \<and> \<not> is_closed m"
proof -
  from assms have "0 \<le> fst target_sz \<and> 0 \<le> snd target_sz"
    by (auto simp: merge_def merge_run_def new_image_def split: sum.splits if_splits)
  then show ?thesis using merge_run_result [of target_sz lanczos tiles] assms by auto
qed

section \<open>The tile plan\<close>

lemma py_range_set:
  "0 < c \<Longrightarrow> x \<in> set (py_range s e c) \<longleftrightarrow> s \<le> x \<and> x < e \<and> (x - s) mod c = 0"
proof (induction s e c rule: py_range.induct)
  case (1 s e c)
  show ?case
  proof (cases "e \<le> s")
    case True
    then show ?thesis by (simp add: py_range.simps [of s e c])
  next
    case False
    have step: "x \<in> set (py_range (s + c) e c) \<longleftrightarrow> s + c \<le> x \<and> x < e \<and> (x - (s + c)) mod c = 0"
      using "1.IH" "1.prems" False by simp
    have m: "(x - (s + c)) mod c = (x - s) mod c"
      by (simp add: diff_diff_eq [symmetric])
    have far: "s + c \<le> x" if "s < x" "(x - s) mod c = 0"
    proof -
      from that(2) have "c dvd (x - s)" by (simp add: dvd_eq_mod_eq_0)
      with that(1) have "c \<le> x - s" by (intro zdvd_imp_le) simp_all
      then show ?thesis by simp
    qed
    have "x \<in> set (py_range s e c) \<longleftrightarrow> x = s \<or> x \<in> set (py_range (s + c) e c)"
      using False "1.prems" by (simp add: py_range.simps [of s e c])
    also have "\<dots> \<longleftrightarrow> s \<le> x \<and> x < e \<and> (x - s) mod c = 0"
      using False "1.prems" far by (auto simp: step m)
    finally show ?thesis .
  qed
qed

lemma py_range_gap: "0 < c \<Longrightarrow> sorted_wrt (\<lambda>a b. a + c \<le> b) (py_range s e c)"
proof (induction s e c rule: py_range.induct)
  case (1 s e c)
  show ?case
  proof (cases "e \<le> s")
    case True
    then show ?thesis by (simp add: py_range.simps [of s e c])
  next
    case False
    then show ?thesis
      using "1.IH" "1.prems" by (simp add: py_range.simps [of s e c] py_range_set)
  qed
qed

lemma py_range_single: "0 < c \<Longrightarrow> 0 < e \<Longrightarrow> e \<le> c \<Longrightarrow> py_range 0 e c = [0]"
  by (simp add: py_range.simps [of 0 e c] py_range.simps [of c e c])

lemma sorted_wrt_concat:
  "sorted_wrt R (concat xss) \<longleftrightarrow>
     (\<forall>xs \<in> set xss. sorted_wrt R xs) \<and>
     sorted_wrt (\<lambda>xs ys. \<forall>x \<in> set xs. \<forall>y \<in> set ys. R x y) xss"
  by (induction xss) (auto simp: sorted_wrt_append)

lemma tile_plan_before:
  assumes "0 < c"
  shows "sorted_wrt tile_before (tile_plan c w h)"
proof -
  let ?row = "\<lambda>y. map (\<lambda>x. (x, y, min (x + c) w, min (y + c) h)) (py_range 0 w c)"
  have row: "sorted_wrt tile_before (?row y)" for y
  proof -
    have "sorted_wrt (\<lambda>a b. tile_before (a, y, min (a + c) w, min (y + c) h)
                                        (b, y, min (b + c) w, min (y + c) h)) (py_range 0 w c)"
      by (rule sorted_wrt_mono_rel [OF _ py_range_gap [OF assms]])
         (use assms in \<open>auto simp: tile_before_def row_major_before_def rect_def in_box_def\<close>)
    then show ?thesis by (simp add: sorted_wrt_map)
  qed
  have rows: "sorted_wrt (\<lambda>xs ys. \<forall>a \<in> set xs. \<forall>b \<in> set ys. tile_before a b)
               (map ?row (py_range 0 h c))"
    unfolding sorted_wrt_map
    by (rule sorted_wrt_mono_rel [OF _ py_range_gap [OF assms]])
       (use assms in \<open>auto simp: tile_before_def row_major_before_def rect_def in_box_def\<close>)
  show ?thesis
    unfolding tile_plan_def sorted_wrt_concat using row rows by auto
qed

lemma tile_plan_cover:
  assumes "0 < c"
  shows "(\<Union>b \<in> set (tile_plan c w h). rect b) = {0..<w} \<times> {0..<h}"
proof (rule set_eqI, clarify)
  fix x y
  show "(x, y) \<in> (\<Union>b \<in> set (tile_plan c w h). rect b) \<longleftrightarrow> (x, y) \<in> {0..<w} \<times> {0..<h}"
  proof
    assume "(x, y) \<in> (\<Union>b \<in> set (tile_plan c w h). rect b)"
    then show "(x, y) \<in> {0..<w} \<times> {0..<h}"
      using assms by (auto simp: tile_plan_def rect_def in_box_def py_range_set)
  next
    assume xy: "(x, y) \<in> {0..<w} \<times> {0..<h}"
    define x0 where "x0 = x - x mod c"
    define y0 where "y0 = y - y mod c"
    from xy have xr: "0 \<le> x" "x < w" "0 \<le> y" "y < h" by auto
    have mx: "0 \<le> x mod c" "x mod c < c" "0 \<le> y mod c" "y mod c < c"
      using assms by simp_all
    have x0: "0 \<le> x0" "x0 \<le> x" "x < x0 + c" "x0 < w"
      using xr mx zmod_le_nonneg_dividend [of x c] unfolding x0_def by linarith+
    have y0: "0 \<le> y0" "y0 \<le> y" "y < y0 + c" "y0 < h"
      using xr mx zmod_le_nonneg_dividend [of y c] unfolding y0_def by linarith+
    have xm: "x0 mod c = 0" "y0 mod c = 0"
      by (simp_all add: x0_def y0_def minus_mod_eq_mult_div)
    have "x0 \<in> set (py_range 0 w c)" "y0 \<in> set (py_range 0 h c)"
      using x0 y0 xm assms by (simp_all add: py_range_set)
    moreover have "(x, y) \<in> rect (x0, y0, min (x0 + c) w, min (y0 + c) h)"
      using x0 y0 xy by (simp add: rect_def in_box_def)
    ultimately show "(x, y) \<in> (\<Union>b \<in> set (tile_plan c w h). rect b)"
      unfolding tile_plan_def by auto
  qed
qed

lemma tile_plan_single:
  "0 < c \<Longrightarrow> 0 < w \<Longrightarrow> 0 < h \<Longrightarrow> w \<le> c \<Longrightarrow> h \<le> c \<Longrightarrow> tile_plan c w h = [(0, 0, w, h)]"
  by (simp add: tile_plan_def py_range_single)

lemma chunk_size_bounds: "256 \<le> chunk_size fl a w h \<and> chunk_size fl a w h \<le> 2048"
  by (simp add: chunk_size_def Let_def)

lemma exact_ops_sel [simp]:
  "fdiv exact_ops a b = real_of_int a / real_of_int b"
  "fmul exact_ops n x = real_of_int n * x"
  "fsqrt exact_ops x = sqrt x"
  by (simp_all add: exact_ops_def)

text \<open>When the root of the memory factor is 16 or more, the chunk size is the upper bound.\<close>

lemma chunk_size_plenty:
  assumes "16 \<le> fsqrt fl (fdiv fl available (w * h * 3 * 2))"
  shows "chunk_size fl available w h = 2048"
proof -
  let ?r = "fsqrt fl (fdiv fl available (w * h * 3 * 2))"
  from assms have "16 \<le> \<lfloor>?r\<rfloor>" by (simp add: le_floor_iff)
  moreover have "0 \<le> ?r" using assms by linarith
  ultimately have "16 \<le> py_int ?r" by (simp add: py_int_def)
  then show ?thesis by (simp add: chunk_size_def Let_def)
qed

text \<open>The chunk size for an 8x8 image with 6 GiB available: the memory factor is \<open>2 ^ 24\<close>.\<close>

lemma chunk_size_8x8: "chunk_size exact_ops 6442450944 8 8 = 2048"
proof (rule chunk_size_plenty)
  have "sqrt 16777216 = sqrt (4096 ^ 2)" by simp
  also have "\<dots> = 4096" by simp
  finally show "16 \<le> fsqrt exact_ops (fdiv exact_ops 6442450944 (8 * 8 * 3 * 2))"
    by simp
qed

text \<open>A plan of six tiles: a 600x300 image in chunks of 256.\<close>

lemma tile_plan_600_300:
  "tile_plan 256 600 300 =
     [(0, 0, 256, 256), (256, 0, 512, 256), (512, 0, 600, 256),
      (0, 256, 256, 300), (256, 256, 512, 300), (512, 256, 600, 300)]"
  by (simp add: tile_plan_def py_range.simps)

section \<open>safe_resize and the mip chain\<close>

lemma check_resources_iff:
  "check_resources available free = Inl RuntimeError \<longleftrightarrow> available \<le> 1073741824 \<or> free \<le> 2147483648"
  "check_resources available free = Inr () \<longleftrightarrow> 1073741824 < available \<and> 2147483648 < free"
  by (auto simp: check_resources_def Let_def)

lemma safe_resize_size:
  assumes "safe_resize fl lanczos env img target_sz = Inr out"
  shows "img_size out = target_sz \<and> \<not> is_closed out"
proof (cases "tile_pipeline fl lanczos env img target_sz")
  case (Inl e)
  with assms have "resize lanczos img target_sz = Inr out" by (simp add: safe_resize_def)
  then show ?thesis by (rule resize_size)
next
  case (Inr m)
  with assms have "m = out" by (simp add: safe_resize_def)
  with Inr have "\<exists>tiles. merge lanczos tiles target_sz = Inr out"
    by (auto simp: tile_pipeline_def Let_def split: sum.splits if_splits)
  then show ?thesis using merge_size by blast
qed

lemma safe_resize_total:
  assumes "\<not> is_closed img" "0 < fst target_sz" "0 < snd target_sz"
  shows "\<exists>out. safe_resize fl lanczos env img target_sz = Inr out"
proof (cases "tile_pipeline fl lanczos env img target_sz")
  case (Inl e)
  then show ?thesis using resize_positive [OF assms, of lanczos] by (simp add: safe_resize_def)
next
  case (Inr m)
  then show ?thesis by (simp add: safe_resize_def)
qed

lemma process_image_size:
  assumes "process_image fl lanczos env path target_sz = Inr out"
  shows "png_size out = target_sz"
proof (cases "img_size (open_rgb path) = target_sz")
  case True
  with assms have "out = path" by (simp add: process_image_def)
  with True show ?thesis by (simp add: img_size_def open_rgb_def png_size_def)
next
  case False
  with assms obtain resized where r: "safe_resize fl lanczos env (open_rgb path) target_sz = Inr resized"
    and s: "save_png resized = Inr out"
    by (auto simp: process_image_def split: sum.splits)
  from safe_resize_size [OF r] s show ?thesis
    by (auto simp: save_png_def img_size_def png_size_def split: if_splits)
qed

lemma process_image_total:
  assumes "0 < fst target_sz" "0 < snd target_sz"
  shows "\<exists>out. process_image fl lanczos env path target_sz = Inr out"
proof (cases "img_size (open_rgb path) = target_sz")
  case True
  then show ?thesis by (simp add: process_image_def)
next
  case False
  have "\<not> is_closed (open_rgb path)" by (simp add: open_rgb_def)
  from safe_resize_total [OF this assms, of fl lanczos env]
  obtain resized where r: "safe_resize fl lanczos env (open_rgb path) target_sz = Inr resized" by blast
  from safe_resize_size [OF r] assms
  have "\<not> is_closed resized" "0 < width resized" "0 < height resized"
    by (auto simp: img_size_def)
  with r False show ?thesis by (simp add: process_image_def save_png_def)
qed

lemma process_levels_targets:
  "process_levels fl lanczos env current_size idx files = Inr outputs \<Longrightarrow>
     map fst outputs = mip_targets current_size (length files) \<and>
     (\<forall>lv \<in> set outputs. png_size (snd lv) = fst lv)"
proof (induction files arbitrary: current_size idx outputs)
  case Nil
  then show ?case by simp
next
  case (Cons f files)
  from Cons.prems obtain out rest where
    o: "process_image fl lanczos (env idx) f (halve current_size) = Inr out" and
    r: "process_levels fl lanczos env (halve current_size) (Suc idx) files = Inr rest" and
    e: "outputs = (halve current_size, out) # rest"
    by (auto simp: halve_def Let_def split: sum.splits)
  from Cons.IH [OF r] process_image_size [OF o] e show ?case by simp
qed

lemma process_levels_total:
  "2 ^ length files \<le> fst current_size \<Longrightarrow> 2 ^ length files \<le> snd current_size \<Longrightarrow>
     \<exists>outputs. process_levels fl lanczos env current_size idx files = Inr outputs"
proof (induction files arbitrary: current_size idx)
  case Nil
  then show ?case by simp
next
  case (Cons f files)
  have h: "2 ^ length files \<le> fst (halve current_size)" "2 ^ length files \<le> snd (halve current_size)"
    using Cons.prems by (simp_all add: halve_def)
  have "(1::int) \<le> 2 ^ length files" by simp
  with h have p: "0 < fst (halve current_size)" "0 < snd (halve current_size)" by linarith+
  from process_image_total [OF p, of fl lanczos "env idx" f]
  obtain out where o: "process_image fl lanczos (env idx) f (halve current_size) = Inr out" by blast
  from Cons.IH [OF h, of "Suc idx"]
  obtain rest where r: "process_levels fl lanczos env (halve current_size) (Suc idx) files = Inr rest" by blast
  from o r show ?case by (simp add: halve_def)
qed

lemma mip_targets_nth:
  "i < n \<Longrightarrow> mip_targets sz n ! i = halve (if i = 0 then sz else mip_targets sz n ! (i - 1))"
proof (induction n arbitrary: sz i)
  case 0
  then show ?case by simp
next
  case (Suc n)
  show ?case
  proof (cases i)
    case 0
    then show ?thesis by simp
  next
    case (Suc j)
    with Suc.prems have "j < n" by simp
    from Suc.IH [OF this, of "halve sz"] Suc show ?thesis by (cases j) simp_all
  qed
qed

lemma length_mip_targets [simp]: "length (mip_targets sz n) = n"
  by (induction n arbitrary: sz) simp_all

lemma process_targets:
  assumes "process fl lanczos env files = Inr levels"
  shows "map fst levels = png_size (hd files) # mip_targets (png_size (hd files)) (length files - 1)"
    and "\<forall>lv \<in> set levels. png_size (snd lv) = fst lv"
    and "snd (hd levels) = hd files"
proof -
  from assms obtain outputs where
    o: "process_levels fl lanczos env (png_size (hd files)) 1 (tl files) = Inr outputs" and
    l: "levels = (png_size (hd files), hd files) # outputs"
    by (auto simp: process_def Let_def split: if_splits sum.splits)
  from process_levels_targets [OF o] l
  show "map fst levels = png_size (hd files) # mip_targets (png_size (hd files)) (length files - 1)"
    and "\<forall>lv \<in> set levels. png_size (snd lv) = fst lv"
    and "snd (hd levels) = hd files"
    by simp_all
qed

text \<open>A run without memory pressure: an 8x8 white image becomes a 4x4 white image.\<close>

lemma safe_resize_roomy_run:
  "\<exists>out. safe_resize exact_ops nearest roomy (solid 8 8 white) (4, 4) = Inr out \<and> same_pixels out (solid 4 4 white)"
proof -
  have c: "chunk_size exact_ops 6442450944 8 8 = 2048" by (rule chunk_size_8x8)
  have t: "tile_plan 2048 8 8 = [(0, 0, 8, 8)]" by (rule tile_plan_single) simp_all
  show ?thesis
    by (simp add: safe_resize_def tile_pipeline_def check_resources_def roomy_def
        solid_def c t process_tile_def crop_def resize_def img_size_def scaled_size_def
        py_int_def merge_def merge_run_def nearest_def same_pixels_def in_box_def
        new_image_def merge_step_def wrap_row_def paste_box_def resize_and_paste_def paste_def Let_def)
qed

lemma process_total:
  assumes "2 \<le> length files" "2 ^ (length files - 1) \<le> png_width (hd files)"
    "2 ^ (length files - 1) \<le> png_height (hd files)"
  shows "\<exists>levels. process fl lanczos env files = Inr levels"
proof -
  have "length (tl files) = length files - 1" by simp
  with assms process_levels_total [of "tl files" "png_size (hd files)" fl lanczos env 1]
  obtain outputs where "process_levels fl lanczos env (png_size (hd files)) 1 (tl files) = Inr outputs"
    by (auto simp: png_size_def)
  with assms(1) show ?thesis by (simp add: process_def)
qed

section \<open>Truncation and rounding\<close>

lemma py_int_round:
  "max 1 (py_int x) \<le> max 1 (round x) \<and> max 1 (round x) \<le> max 1 (py_int x) + 1"
proof (cases "0 \<le> x")
  case True
  have "\<lfloor>x\<rfloor> \<le> round x" by (simp add: round_def floor_mono)
  moreover have "round x \<le> \<lfloor>x\<rfloor> + 1" unfolding round_def by linarith
  moreover have "py_int x = \<lfloor>x\<rfloor>" using True by (simp add: py_int_def)
  ultimately show ?thesis by arith
next
  case False
  then have "\<lceil>x\<rceil> \<le> 0" "round x \<le> 0" unfolding round_def by linarith+
  moreover have "py_int x = \<lceil>x\<rceil>" using False by (simp add: py_int_def)
  ultimately show ?thesis by arith
qed

section \<open>The claims\<close>

subsection \<open>C1: mip targets\<close>

text \<open>
  Claim C1. When \<^verbatim>\<open>process\<close> succeeds, it yields one level per input file, level 0 with
  the size of the first file. For every level \<open>i \<ge> 1\<close> the target size is, per axis, the
  integer floor of half of the target size of level \<open>i - 1\<close>, and that target is the size
  of the image produced for level \<open>i - 1\<close> (for level 0, the size of the base image). The
  sizes of the later source files do not enter. For a 256x256 base and three further
  levels the targets are 128x128, 64x64, 32x32 in that order.
\<close>

theorem mip_target_halving:
  assumes "process fl lanczos env files = Inr levels"
  shows "length levels = length files \<and>
         fst (levels ! 0) = png_size (files ! 0) \<and>
         (\<forall>i. 0 < i \<and> i < length levels \<longrightarrow>
            fst (levels ! i) = halve (fst (levels ! (i - 1)))) \<and>
         (\<forall>i. i < length levels \<longrightarrow> png_size (snd (levels ! i)) = fst (levels ! i)) \<and>
         (png_size (files ! 0) = (256, 256) \<and> length files = 4 \<longrightarrow>
            map fst (tl levels) = [(128, 128), (64, 64), (32, 32)])"
proof -
  let ?base = "png_size (hd files)"
  let ?n = "length files - 1"
  from assms have len: "2 \<le> length files" by (auto simp: process_def split: if_splits)
  then have hd: "hd files = files ! 0" by (cases files) simp_all
  note t = process_targets [OF assms]
  have m: "map fst levels = ?base # mip_targets ?base ?n" by (rule t(1))
  from arg_cong [OF m, of length] len have l: "length levels = length files" by simp
  have nth: "fst (levels ! i) = (?base # mip_targets ?base ?n) ! i" if "i < length levels" for i
    using arg_cong [OF m, of "\<lambda>xs. xs ! i"] that by simp
  have out: "png_size (snd (levels ! i)) = fst (levels ! i)" if "i < length levels" for i
    using t(2) that by simp
  have step: "fst (levels ! i) = halve (fst (levels ! (i - 1)))"
    if pos: "0 < i" and lt: "i < length levels" for i
  proof -
    from pos obtain j where j: "i = Suc j" by (cases i) simp_all
    with lt l have jn: "j < ?n" by simp
    have "fst (levels ! i) = mip_targets ?base ?n ! j" using nth [OF lt] j by simp
    also have "\<dots> = halve (if j = 0 then ?base else mip_targets ?base ?n ! (j - 1))"
      by (rule mip_targets_nth [OF jn])
    also have "(if j = 0 then ?base else mip_targets ?base ?n ! (j - 1)) = fst (levels ! j)"
    proof -
      from lt j have "j < length levels" by simp
      from nth [OF this] show ?thesis by (cases j) simp_all
    qed
    finally show ?thesis using j by simp
  qed
  have ex: "map fst (tl levels) = [(128, 128), (64, 64), (32, 32)]"
    if "png_size (files ! 0) = (256, 256)" "length files = 4"
  proof -
    have "map fst (tl levels) = tl (map fst levels)" by (simp add: map_tl)
    also have "\<dots> = mip_targets (256, 256) 3" using m that hd by simp
    also have "\<dots> = [(128, 128), (64, 64), (32, 32)]" by (simp add: halve_def eval_nat_numeral)
    finally show ?thesis .
  qed
  from len l have "0 < length levels" by auto
  from nth [OF this] hd have z: "fst (levels ! 0) = png_size (files ! 0)" by simp
  from l z step out ex show ?thesis by blast
qed

text \<open>Claim C1 at a concrete input.\<close>

theorem mip_target_halving_witness:
  "process exact_ops nearest calm halved_files =
     Inr [((256, 256), solid_png 256 256 white), ((128, 128), solid_png 128 128 white),
          ((64, 64), solid_png 64 64 white), ((32, 32), solid_png 32 32 white)] \<and>
   map fst (tl [((256, 256), solid_png 256 256 white), ((128 :: int, 128 :: int), solid_png 128 128 white),
          ((64, 64), solid_png 64 64 white), ((32, 32), solid_png 32 32 white)])
     = [(128, 128), (64, 64), (32, 32)]"
proof -
  have p: "process exact_ops nearest calm halved_files =
     Inr [((256, 256), solid_png 256 256 white), ((128, 128), solid_png 128 128 white),
          ((64, 64), solid_png 64 64 white), ((32, 32), solid_png 32 32 white)]"
    by (simp add: process_def halved_files_def png_size_def solid_png_def process_image_def
        open_rgb_def img_size_def Let_def)
  have s: "png_size (halved_files ! 0) = (256, 256) \<and> length halved_files = 4"
    by (simp add: halved_files_def png_size_def solid_png_def)
  from mip_target_halving [OF p] s show ?thesis using p by blast
qed

text \<open>
  Claim C1 as stated, with the actual size of the previous level's source image: the
  second file is 100x100, so half of its size is 50x50, and the target used for level 2
  is 64x64.
\<close>

theorem target_from_source_size_counterexample:
  "map_sum id (map fst) (process exact_ops nearest calm mismatched_files) = Inr [(256, 256), (128, 128), (64, 64)] \<and>
   png_size (mismatched_files ! 1) = (100, 100) \<and>
   halve (png_size (mismatched_files ! 1)) = (50, 50)"
proof -
  have "2 \<le> length mismatched_files" "2 ^ (length mismatched_files - 1) \<le> png_width (hd mismatched_files)"
    "2 ^ (length mismatched_files - 1) \<le> png_height (hd mismatched_files)"
    by (simp_all add: mismatched_files_def solid_png_def)
  from process_total [OF this, of exact_ops nearest calm]
  obtain levels where l: "process exact_ops nearest calm mismatched_files = Inr levels" by blast
  from process_targets(1) [OF l]
  have "map fst levels = [(256, 256), (128, 128), (64, 64)]"
    by (simp add: mismatched_files_def solid_png_def png_size_def halve_def eval_nat_numeral)
  with l show ?thesis
    by (simp add: mismatched_files_def solid_png_def png_size_def halve_def)
qed

subsection \<open>C2: the resource floors\<close>

text \<open>
  Claim C2. \<^verbatim>\<open>check_resources\<close> raises exactly when the available memory is at most 1 GiB
  or the free disk space is at most 2 GiB, and returns normally exactly when both are
  above their floor. When it raises inside \<^verbatim>\<open>safe_resize\<close>, no tiling is attempted, and
  the error is caught: the result of \<^verbatim>\<open>safe_resize\<close> is the whole-image resize, which
  for an open image and a positive target size is an image of the target size.
\<close>

theorem resource_floor_caught:
  "(check_resources available free = Inl RuntimeError \<longleftrightarrow>
      available \<le> 1073741824 \<or> free \<le> 2147483648) \<and>
   (check_resources available free = Inr () \<longleftrightarrow>
      1073741824 < available \<and> 2147483648 < free) \<and>
   (check_resources (avail_at_check env) (disk_free env) = Inl RuntimeError \<longrightarrow>
      tile_pipeline fl lanczos env img target_sz = Inl RuntimeError \<and>
      safe_resize fl lanczos env img target_sz = resize lanczos img target_sz \<and>
      (\<not> is_closed img \<and> 0 < fst target_sz \<and> 0 < snd target_sz \<longrightarrow>
         (\<exists>out. safe_resize fl lanczos env img target_sz = Inr out \<and> img_size out = target_sz)))"
proof -
  have "tile_pipeline fl lanczos env img target_sz = Inl RuntimeError \<and>
        safe_resize fl lanczos env img target_sz = resize lanczos img target_sz \<and>
        (\<not> is_closed img \<and> 0 < fst target_sz \<and> 0 < snd target_sz \<longrightarrow>
           (\<exists>out. safe_resize fl lanczos env img target_sz = Inr out \<and> img_size out = target_sz))"
    if raised: "check_resources (avail_at_check env) (disk_free env) = Inl RuntimeError"
  proof -
    from raised have p: "tile_pipeline fl lanczos env img target_sz = Inl RuntimeError"
      by (simp add: tile_pipeline_def)
    then have eq: "safe_resize fl lanczos env img target_sz = resize lanczos img target_sz"
      by (simp add: safe_resize_def)
    have "\<exists>out. safe_resize fl lanczos env img target_sz = Inr out \<and> img_size out = target_sz"
      if "\<not> is_closed img" "0 < fst target_sz" "0 < snd target_sz"
      using resize_positive [OF that, of lanczos] resize_size [of lanczos img target_sz] eq by auto
    with p eq show ?thesis by blast
  qed
  then show ?thesis using check_resources_iff [of available free] by blast
qed

text \<open>Claim C2 at a concrete input.\<close>

theorem resource_floor_caught_witness:
  "check_resources (avail_at_check starved) (disk_free starved) = Inl RuntimeError \<and>
   tile_pipeline exact_ops nearest starved (solid 4 4 white) (2, 2) = Inl RuntimeError \<and>
   safe_resize exact_ops nearest starved (solid 4 4 white) (2, 2) = resize nearest (solid 4 4 white) (2, 2) \<and>
   (\<exists>out. safe_resize exact_ops nearest starved (solid 4 4 white) (2, 2) = Inr out \<and> img_size out = (2, 2)) \<and>
   check_resources (avail_at_check roomy) (disk_free roomy) = Inr ()"
proof -
  have a: "check_resources (avail_at_check starved) (disk_free starved) = Inl RuntimeError"
    by (simp add: check_resources_def starved_def roomy_def)
  have b: "check_resources (avail_at_check roomy) (disk_free roomy) = Inr ()"
    using resource_floor_caught [of "avail_at_check roomy" "disk_free roomy"]
    by (simp add: roomy_def)
  have c: "\<not> is_closed (solid 4 4 white) \<and> 0 < fst (2 :: int, 2 :: int) \<and> 0 < snd (2 :: int, 2 :: int)"
    by (simp add: solid_def)
  from resource_floor_caught [of _ _ starved exact_ops nearest "solid 4 4 white" "(2, 2)"] a b c
  show ?thesis by blast
qed

text \<open>
  Claim C2 as stated says the error is fatal and the level is not produced. With 512 MiB
  of memory available the check raises, and \<^verbatim>\<open>safe_resize\<close> still returns the level.
\<close>

theorem resource_error_fatal_counterexample:
  "check_resources (avail_at_check starved) (disk_free starved) = Inl RuntimeError \<and>
   safe_resize exact_ops nearest starved (solid 4 4 white) (2, 2)
     = Inr \<lparr>width = 2, height = 2, pix = nearest (solid 4 4 white) (2, 2), is_closed = False\<rparr>"
  by (simp add: safe_resize_def tile_pipeline_def check_resources_def starved_def roomy_def
      resize_def solid_def img_size_def)

subsection \<open>C3: the size of the merged image\<close>

text \<open>
  Claim C3. For every non-empty sequence of tiles and every positive target size,
  \<^verbatim>\<open>merge\<close> returns an image whose size is the target size, whatever tiles were skipped
  or dropped, and every pixel outside the pasted boxes has the value of the new buffer.
\<close>

theorem merge_output_size:
  assumes "tiles \<noteq> []" "0 < fst target_sz" "0 < snd target_sz"
  shows "\<exists>st. merge_run lanczos tiles target_sz = Inr st \<and>
              merge lanczos tiles target_sz = Inr (merged st) \<and>
              img_size (merged st) = target_sz \<and> unfilled_black st"
  using merge_run_result [of target_sz lanczos tiles] assms by auto

text \<open>Claim C3 at a concrete input.\<close>

theorem merge_output_size_witness:
  "[solid 6 0 white, close_image (solid 2 2 white), solid 2 2 white] \<noteq> [] \<and>
   0 < fst (4 :: int, 4 :: int) \<and> 0 < snd (4 :: int, 4 :: int) \<and>
   (\<exists>st. merge_run nearest [solid 6 0 white, close_image (solid 2 2 white), solid 2 2 white] (4, 4) = Inr st \<and>
         merge nearest [solid 6 0 white, close_image (solid 2 2 white), solid 2 2 white] (4, 4) = Inr (merged st) \<and>
         img_size (merged st) = (4, 4) \<and> unfilled_black st)"
  using merge_output_size [of "[solid 6 0 white, close_image (solid 2 2 white), solid 2 2 white]" "(4, 4)" nearest]
  by simp

subsection \<open>C4: the tile plan\<close>

text \<open>
  Claim C4. For every image of positive width and height and every available-memory
  reading, the tile plan is in row-major order, its tiles are pairwise disjoint, their
  union is the whole image, and an image no larger than one chunk gives the single tile
  that is the whole image.
\<close>

theorem tile_plan_partition:
  assumes "0 < w" "0 < h"
  shows "sorted_wrt row_major_before (tile_plan (chunk_size fl available w h) w h) \<and>
         (\<forall>i j. i < j \<and> j < length (tile_plan (chunk_size fl available w h) w h) \<longrightarrow>
            rect (tile_plan (chunk_size fl available w h) w h ! i) \<inter>
            rect (tile_plan (chunk_size fl available w h) w h ! j) = {}) \<and>
         (\<Union>b \<in> set (tile_plan (chunk_size fl available w h) w h). rect b) = {0..<w} \<times> {0..<h} \<and>
         (w \<le> chunk_size fl available w h \<and> h \<le> chunk_size fl available w h \<longrightarrow>
            tile_plan (chunk_size fl available w h) w h = [(0, 0, w, h)])"
proof -
  let ?c = "chunk_size fl available w h"
  have c: "0 < ?c" using chunk_size_bounds [of fl available w h] by linarith
  have b: "sorted_wrt tile_before (tile_plan ?c w h)" by (rule tile_plan_before [OF c])
  have "sorted_wrt row_major_before (tile_plan ?c w h)"
    by (rule sorted_wrt_mono_rel [OF _ b]) (simp add: tile_before_def)
  moreover have "\<forall>i j. i < j \<and> j < length (tile_plan ?c w h) \<longrightarrow>
      rect (tile_plan ?c w h ! i) \<inter> rect (tile_plan ?c w h ! j) = {}"
    using b by (auto simp: sorted_wrt_iff_nth_less tile_before_def)
  moreover note tile_plan_cover [OF c, of w h]
  moreover have "tile_plan ?c w h = [(0, 0, w, h)]" if "w \<le> ?c" "h \<le> ?c"
    using tile_plan_single [OF c assms that] .
  ultimately show ?thesis by blast
qed

text \<open>Claim C4 at a concrete input.\<close>

theorem tile_plan_partition_witness:
  "(0 :: int) < 200 \<and> (0 :: int) < 100 \<and>
   tile_plan (chunk_size exact_ops 7864320000 200 100) 200 100 = [(0, 0, 200, 100)] \<and>
   (\<Union>b \<in> set (tile_plan (chunk_size exact_ops 7864320000 200 100) 200 100). rect b) = {0..<200} \<times> {0..<100}"
proof -
  have p: "(0 :: int) < 200" "(0 :: int) < 100" by simp_all
  have s: "200 \<le> chunk_size exact_ops 7864320000 200 100 \<and> 100 \<le> chunk_size exact_ops 7864320000 200 100"
    using chunk_size_bounds [of exact_ops 7864320000 200 100] by linarith
  from tile_plan_partition [OF p, of exact_ops 7864320000] s p show ?thesis by blast
qed

subsection \<open>C5: the fallback\<close>

text \<open>
  Claim C5. If the tiling pipeline raises any error, \<^verbatim>\<open>safe_resize\<close> returns what the
  whole-image resize of the source image to the target size returns; when the image is
  open and the target size has a positive width and a positive height, that is an image
  of the target size, so the level is produced and the error does not propagate.
\<close>

theorem fallback_on_error:
  assumes "tile_pipeline fl lanczos env img target_sz = Inl e"
  shows "safe_resize fl lanczos env img target_sz = resize lanczos img target_sz \<and>
         (\<not> is_closed img \<and> 0 < fst target_sz \<and> 0 < snd target_sz \<longrightarrow>
            (\<exists>out. safe_resize fl lanczos env img target_sz = Inr out \<and> img_size out = target_sz))"
proof -
  have eq: "safe_resize fl lanczos env img target_sz = resize lanczos img target_sz"
    using assms by (simp add: safe_resize_def)
  moreover have "\<exists>out. safe_resize fl lanczos env img target_sz = Inr out \<and> img_size out = target_sz"
    if "\<not> is_closed img" "0 < fst target_sz" "0 < snd target_sz"
    using resize_positive [OF that, of lanczos] resize_size [of lanczos img target_sz] eq by auto
  ultimately show ?thesis by blast
qed

text \<open>Claim C5 at a concrete input: 1 GiB of disk free, a 4x4 image, the target 2x2.\<close>

theorem fallback_on_error_witness:
  "tile_pipeline exact_ops nearest disk_full (solid 4 4 white) (2, 2) = Inl RuntimeError \<and>
   safe_resize exact_ops nearest disk_full (solid 4 4 white) (2, 2) = resize nearest (solid 4 4 white) (2, 2) \<and>
   (\<exists>out. safe_resize exact_ops nearest disk_full (solid 4 4 white) (2, 2) = Inr out \<and> img_size out = (2, 2))"
proof -
  have a: "tile_pipeline exact_ops nearest disk_full (solid 4 4 white) (2, 2) = Inl RuntimeError"
    by (simp add: tile_pipeline_def check_resources_def disk_full_def roomy_def)
  have b: "\<not> is_closed (solid 4 4 white) \<and> 0 < fst (2 :: int, 2 :: int) \<and> 0 < snd (2 :: int, 2 :: int)"
    by (simp add: solid_def)
  from fallback_on_error [OF a] a b show ?thesis by blast
qed

text \<open>
  Claim C5 as stated, for every target size: with 512 MiB of memory available the
  pipeline raises, and for the 1x1 image of level 2 with the target 0x0 the whole-image
  resize raises too, so \<^verbatim>\<open>safe_resize\<close> raises and \<^verbatim>\<open>process\<close> on files of 2x2, 1x1 and
  1x1 ends with the error instead of a level.
\<close>

theorem fallback_zero_target_counterexample:
  "tile_pipeline exact_ops nearest starved (open_rgb (solid_png 1 1 white)) (0, 0) = Inl RuntimeError \<and>
   safe_resize exact_ops nearest starved (open_rgb (solid_png 1 1 white)) (0, 0) = Inl ValueError \<and>
   process exact_ops nearest scarce tiny_files = Inl ValueError"
  by (simp add: process_def tiny_files_def png_size_def solid_png_def process_image_def
      open_rgb_def img_size_def safe_resize_def tile_pipeline_def check_resources_def
      scarce_def starved_def roomy_def resize_def Let_def)

subsection \<open>C6: the size of a resampled tile\<close>

text \<open>
  Claim C6. The tile that one pass of the loop appends has width
  \<open>max 1 (int (cropWidth * scaleX))\<close> and height \<open>max 1 (int (cropHeight * scaleY))\<close>,
  where the products are the double-precision products and \<open>int\<close> truncates them towards
  zero; both are at least 1, and each is the value with rounding in place of truncation,
  or one less.
\<close>

theorem resampled_size_truncates:
  assumes "crop img tile = Inr cropped"
    and "process_tile fl lanczos env img scale_w scale_h k tile processed = Inr processed'"
  shows "processed' \<noteq> [] \<and>
         img_size (last processed') =
           (max 1 (py_int (fmul fl (width cropped) scale_w)),
            max 1 (py_int (fmul fl (height cropped) scale_h))) \<and>
         1 \<le> width (last processed') \<and> 1 \<le> height (last processed') \<and>
         width (last processed') \<le> fst (spec_scaled_size fl cropped scale_w scale_h) \<and>
         fst (spec_scaled_size fl cropped scale_w scale_h) \<le> width (last processed') + 1 \<and>
         height (last processed') \<le> snd (spec_scaled_size fl cropped scale_w scale_h) \<and>
         snd (spec_scaled_size fl cropped scale_w scale_h) \<le> height (last processed') + 1"
proof -
  from assms obtain scaled where
    r: "resize lanczos cropped (scaled_size fl cropped scale_w scale_h) = Inr scaled" and
    p: "processed' = last3 processed @ [close_image scaled] \<or> processed' = processed @ [scaled]"
    by (auto simp: process_tile_def split: sum.splits if_splits)
  from resize_size [OF r] have s: "img_size scaled = scaled_size fl cropped scale_w scale_h" by simp
  from p have l: "processed' \<noteq> [] \<and> img_size (last processed') = img_size scaled"
    by (auto simp: close_image_def img_size_def)
  with s have d: "width (last processed') = max 1 (py_int (fmul fl (width cropped) scale_w))"
    "height (last processed') = max 1 (py_int (fmul fl (height cropped) scale_h))"
    by (simp_all add: img_size_def scaled_size_def)
  have pos: "1 \<le> width (last processed')" "1 \<le> height (last processed')"
    unfolding d by simp_all
  have near: "width (last processed') \<le> fst (spec_scaled_size fl cropped scale_w scale_h)"
    "fst (spec_scaled_size fl cropped scale_w scale_h) \<le> width (last processed') + 1"
    "height (last processed') \<le> snd (spec_scaled_size fl cropped scale_w scale_h)"
    "snd (spec_scaled_size fl cropped scale_w scale_h) \<le> height (last processed') + 1"
    unfolding d spec_scaled_size_def fst_conv snd_conv
    using py_int_round [of "fmul fl (width cropped) scale_w"]
      py_int_round [of "fmul fl (height cropped) scale_h"] by blast+
  from l s have "img_size (last processed') = scaled_size fl cropped scale_w scale_h" by simp
  with l pos near show ?thesis by (simp add: scaled_size_def)
qed

text \<open>
  Claim C6 at a concrete input: the first tile of a 12288x8 image in chunks of 2048, for
  the target 9x4. The scales \<open>9 / 12288\<close> and \<open>4 / 8\<close> and the products 1.5 and 4 are exact
  in double precision.
\<close>

theorem resampled_size_truncates_witness:
  "\<exists>cropped out.
     crop (solid 12288 8 white) (0, 0, 2048, 8) = Inr cropped \<and>
     process_tile exact_ops nearest roomy (solid 12288 8 white) (9 / 12288) (4 / 8) 0 (0, 0, 2048, 8) [] = Inr out \<and>
     img_size cropped = (2048, 8) \<and> img_size (last out) = (1, 4)"
proof -
  obtain cropped where c: "crop (solid 12288 8 white) (0, 0, 2048, 8) = Inr cropped"
    and d: "width cropped = 2048" "height cropped = 8" "\<not> is_closed cropped"
    by (simp add: crop_def solid_def)
  have "\<exists>out. process_tile exact_ops nearest roomy (solid 12288 8 white) (9 / 12288) (4 / 8) 0 (0, 0, 2048, 8) [] = Inr out"
    by (simp add: process_tile_def c resize_def d img_size_def scaled_size_def py_int_def
        roomy_def)
  then obtain out where
    p: "process_tile exact_ops nearest roomy (solid 12288 8 white) (9 / 12288) (4 / 8) 0 (0, 0, 2048, 8) [] = Inr out"
    by blast
  from resampled_size_truncates [OF c p] have "img_size (last out) = (1, 4)"
    by (simp add: d py_int_def)
  with c p d show ?thesis by (auto simp: img_size_def)
qed

text \<open>
  Claim C6 as stated, with rounding: a crop 2048 wide scaled by \<open>9 / 12288\<close> is 1.5 wide
  before the conversion (quotient and product are exact in double precision); the source
  truncates to 1, rounding gives 2.
\<close>

theorem resampled_size_rounds_counterexample:
  "scaled_size exact_ops (solid 2048 8 white) (9 / 12288) (4 / 8) = (1, 4) \<and>
   spec_scaled_size exact_ops (solid 2048 8 white) (9 / 12288) (4 / 8) = (2, 4)"
  by (simp add: scaled_size_def spec_scaled_size_def solid_def py_int_def round_def)

subsection \<open>C7: shedding tiles under memory pressure\<close>

text \<open>
  Claim C7. Under memory pressure the pending list is cut to its three most recent tiles,
  and the source then closes the tile it has just scaled and appends it. With 90 percent of
  the memory in use, the only tile of an 8x8 image is pending closed, \<^verbatim>\<open>merge\<close> skips
  it, and the 4x4 result is the black buffer. With five tiles pending, the four pending
  afterwards are the three most recent, still open, and the new one, closed: the tile
  that \<^verbatim>\<open>close()\<close> released is the retained newest one.
\<close>

theorem pressure_closes_retained_tile:
  "map_sum id (map is_closed)
     (process_tile exact_ops nearest pressured (solid 8 8 white) (4 / 8) (4 / 8) 0 (0, 0, 8, 8) []) = Inr [True] \<and>
   safe_resize exact_ops nearest pressured (solid 8 8 white) (4, 4) = new_image (4, 4) \<and>
   map_sum id (map is_closed)
     (process_tile exact_ops nearest pressured (solid 8 8 white) (4 / 8) (4 / 8) 5 (0, 0, 8, 8)
        [solid 2 2 black, solid 2 2 white, solid 2 2 white, solid 2 2 white, solid 2 2 white])
     = Inr [False, False, False, True]"
proof -
  have c: "chunk_size exact_ops 6442450944 8 8 = 2048" by (rule chunk_size_8x8)
  have t: "tile_plan 2048 8 8 = [(0, 0, 8, 8)]" by (rule tile_plan_single) simp_all
  have a: "map_sum id (map is_closed)
     (process_tile exact_ops nearest pressured (solid 8 8 white) (4 / 8) (4 / 8) 0 (0, 0, 8, 8) []) = Inr [True]"
    by (simp add: process_tile_def crop_def resize_def solid_def img_size_def scaled_size_def
        py_int_def pressured_def roomy_def last3_def close_image_def)
  have b: "safe_resize exact_ops nearest pressured (solid 8 8 white) (4, 4) = new_image (4, 4)"
    by (simp add: safe_resize_def tile_pipeline_def check_resources_def pressured_def roomy_def
        solid_def c t process_tile_def crop_def resize_def img_size_def scaled_size_def
        py_int_def last3_def close_image_def merge_def merge_run_def
        new_image_def merge_step_def wrap_row_def paste_box_def resize_and_paste_def Let_def)
  have d: "map_sum id (map is_closed)
     (process_tile exact_ops nearest pressured (solid 8 8 white) (4 / 8) (4 / 8) 5 (0, 0, 8, 8)
        [solid 2 2 black, solid 2 2 white, solid 2 2 white, solid 2 2 white, solid 2 2 white])
     = Inr [False, False, False, True]"
    by (simp add: process_tile_def crop_def resize_def solid_def img_size_def scaled_size_def
        py_int_def pressured_def roomy_def last3_def close_image_def)
  from a b d show ?thesis by (intro conjI)
qed

subsection \<open>C8: a tile whose paste fails\<close>

text \<open>
  Claim C8. Let \<open>st\<close> be the loop state after the wrap check, with the cursor's row
  inside the destination. If resizing and pasting the tile fails, \<^verbatim>\<open>merge\<close> goes on
  with the remaining tiles from \<open>st\<close> itself: the cursor is not advanced. If it succeeds,
  \<open>x_pos\<close> grows by the tile's width and \<open>current_row_height\<close> becomes the maximum of
  itself and the tile's height.
\<close>

theorem merge_step_cursor:
  assumes "st = wrap_row tile st0" "y_pos st < height (merged st)"
  shows "(\<forall>e. resize_and_paste lanczos (merged st) tile (paste_box tile st) = Inl e \<longrightarrow>
            merge_step lanczos tile st0 = Inr (st, Next_tile) \<and>
            merge_loop lanczos (tile # tiles) st0 = merge_loop lanczos tiles st) \<and>
         (\<forall>m. resize_and_paste lanczos (merged st) tile (paste_box tile st) = Inr m \<longrightarrow>
            (\<exists>st' f. merge_step lanczos tile st0 = Inr (st', f) \<and> merged st' = m \<and>
                      x_pos st' = x_pos st + width tile \<and> y_pos st' = y_pos st \<and>
                      current_row_height st' = max (current_row_height st) (height tile)))"
  using assms
  by (auto simp: merge_step_def Let_def dest: resize_and_paste_raises)

text \<open>Claim C8 at a concrete input.\<close>

theorem merge_step_cursor_witness:
  "\<lparr>merged = solid 4 4 black, x_pos = 0, y_pos = 0, current_row_height = 0, pasted = []\<rparr>
     = wrap_row (solid 6 0 white) \<lparr>merged = solid 4 4 black, x_pos = 3, y_pos = 0, current_row_height = 0, pasted = []\<rparr> \<and>
   y_pos \<lparr>merged = solid 4 4 black, x_pos = 0, y_pos = 0, current_row_height = 0, pasted = []\<rparr>
     < height (merged \<lparr>merged = solid 4 4 black, x_pos = 0, y_pos = 0, current_row_height = 0, pasted = []\<rparr>) \<and>
   merge_loop nearest [solid 6 0 white, solid 2 2 white]
      \<lparr>merged = solid 4 4 black, x_pos = 3, y_pos = 0, current_row_height = 0, pasted = []\<rparr>
   = merge_loop nearest [solid 2 2 white]
      \<lparr>merged = solid 4 4 black, x_pos = 0, y_pos = 0, current_row_height = 0, pasted = []\<rparr>"
proof -
  let ?before = "\<lparr>merged = solid 4 4 black, x_pos = 3, y_pos = 0, current_row_height = 0, pasted = []\<rparr>"
  let ?after = "\<lparr>merged = solid 4 4 black, x_pos = 0, y_pos = 0, current_row_height = 0, pasted = []\<rparr>"
  have w: "?after = wrap_row (solid 6 0 white) ?before"
    by (simp add: wrap_row_def solid_def)
  have y: "y_pos ?after < height (merged ?after)" by (simp add: solid_def)
  have f: "resize_and_paste nearest (merged ?after) (solid 6 0 white) (paste_box (solid 6 0 white) ?after) = Inl ValueError"
    by (simp add: paste_box_def resize_and_paste_def resize_def img_size_def solid_def)
  have c: "merge_loop nearest [solid 6 0 white, solid 2 2 white] ?before
             = merge_loop nearest [solid 2 2 white] ?after"
    using conjunct1 [OF merge_step_cursor [OF w y, of nearest "[solid 2 2 white]"], rule_format, OF f]
    by (rule conjunct2)
  show ?thesis by (rule conjI [OF w conjI [OF y c]])
qed

text \<open>
  Claim C8 as stated says the cursor advances past a skipped tile. A 6x0 tile on a 4x4
  destination has the empty clipped box (0, 0, 4, 0); it is skipped and \<open>x_pos\<close> stays 0,
  not 6.
\<close>

theorem skipped_tile_cursor_counterexample:
  "merge_step nearest (solid 6 0 white)
     \<lparr>merged = solid 4 4 black, x_pos = 0, y_pos = 0, current_row_height = 0, pasted = []\<rparr>
   = Inr (\<lparr>merged = solid 4 4 black, x_pos = 0, y_pos = 0, current_row_height = 0, pasted = []\<rparr>, Next_tile)
   \<and> (0::int) + width (solid 6 0 white) = 6"
  by (simp add: merge_step_def wrap_row_def paste_box_def resize_and_paste_def resize_def
      img_size_def solid_def Let_def)

subsection \<open>C9: a single full-size tile\<close>

text \<open>
  Claim C9. Merging the single open tile \<open>tile\<close> into a target of the tile's own size
  returns an image with the same size and the same pixel at every coordinate.
\<close>

theorem merge_single_full_tile:
  assumes "\<not> is_closed tile" "0 \<le> width tile" "0 \<le> height tile"
  shows "\<exists>m. merge lanczos [tile] (img_size tile) = Inr m \<and> same_pixels m tile"
  using assms
  by (auto simp: merge_def merge_run_def new_image_def img_size_def merge_step_def wrap_row_def
      paste_box_def resize_and_paste_def resize_def paste_def same_pixels_def in_box_def Let_def)

text \<open>Claim C9 at a concrete input.\<close>

theorem merge_single_full_tile_witness:
  "\<not> is_closed (solid 4 3 white) \<and> 0 \<le> width (solid 4 3 white) \<and> 0 \<le> height (solid 4 3 white) \<and>
   (\<exists>m. merge nearest [solid 4 3 white] (img_size (solid 4 3 white)) = Inr m \<and> same_pixels m (solid 4 3 white))"
  using merge_single_full_tile [of "solid 4 3 white" nearest] by (simp add: solid_def)

subsection \<open>C10: no tiles\<close>

text \<open>
  Claim C10. For every positive target size, \<^verbatim>\<open>merge\<close> of the empty tile sequence
  raises nothing and returns the new buffer: the target size, every pixel black.
\<close>

theorem merge_empty:
  assumes "0 < w" "0 < h"
  shows "merge lanczos [] (w, h) = Inr \<lparr>width = w, height = h, pix = (\<lambda>x y. black), is_closed = False\<rparr>"
  using assms by (simp add: merge_def merge_run_def new_image_def)

text \<open>Claim C10 at a concrete input.\<close>

theorem merge_empty_witness:
  "(0::int) < 4 \<and> (0::int) < 3 \<and>
   merge nearest [] (4, 3) = Inr \<lparr>width = 4, height = 3, pix = (\<lambda>x y. black), is_closed = False\<rparr>"
  using merge_empty [of 4 3 nearest] by simp

end
